theory Spec2Isabelle
  imports Main "HOL-Library.Word"
begin

section \<open>The omit package: a value that is either set or unset\<close>

text \<open>
  The package \<open>omit\<close> is present in two source files, \<open>src/omit/omit.go\<close> and
  \<open>src/unnamed/part_000\<close>. Most functions have the same body in both files and are
  modelled once. Where the bodies differ, the plain name is the function of
  \<open>omit.go\<close> and the name with the suffix \<open>_p0\<close> is the function of \<open>part_000\<close>.

  Conventions of the embedding:
  \<^item> A generic type parameter \<open>T\<close> is a HOL type variable. Go's zero value of \<open>T\<close>
    (\<open>var empty T\<close>, and the fields a struct literal leaves out) is the explicit first
    argument \<open>zero\<close> of every function that needs it.
  \<^item> A method with a pointer receiver returns the updated container, paired with the
    error it returns (\<open>None\<close> is Go's \<open>nil\<close> error).
  \<^item> A function that can panic returns \<open>panic + 'a\<close>, \<open>Inl\<close> being the panic.
  \<^item> A byte slice and a Go string are both a \<open>char list\<close> (an Isabelle \<open>char\<close> is
    a byte). A \<open>nil\<close> byte slice and an empty one are both \<open>[]\<close>: the package
    only ever takes their \<open>len\<close>.
  \<^item> Functions of other packages that the source calls on a value of type \<open>T\<close>
    (\<open>json.Marshal\<close>, \<open>json.Unmarshal\<close>, \<open>opt.ConvertAssign\<close>, the methods of
    \<open>T\<close>) are arguments of the model. One that writes through a pointer takes the
    old content and returns the new content with the error, so that a partial write
    before a failure is representable.
\<close>

subsection \<open>Errors, panics and wire bytes\<close>

type_synonym bytes = string

datatype error = errors_New string

datatype panic = Panic string

subsection \<open>The container\<close>

type_synonym state = int

definition StateUnset :: state where
  "StateUnset = 0"

definition StateSet :: state where
  "StateSet = 1"

record 'a Val =
  "value" :: 'a
  state :: state

definition New :: "'a \<Rightarrow> 'a Val" where
  "New zero = \<lparr>value = zero, state = 0\<rparr>"

definition From :: "'a \<Rightarrow> 'a Val" where
  "From val = \<lparr>value = val, state = StateSet\<rparr>"

text \<open>A pointer \<open>*T\<close> that is only tested for \<open>nil\<close> and dereferenced is an \<open>'a option\<close>.\<close>

definition FromPtr :: "'a \<Rightarrow> 'a option \<Rightarrow> 'a Val" where
  "FromPtr zero val =
     (case val of
        None \<Rightarrow> \<lparr>value = zero, state = StateUnset\<rparr>
      | Some x \<Rightarrow> \<lparr>value = x, state = StateSet\<rparr>)"

definition FromCond :: "'a \<Rightarrow> 'a \<Rightarrow> bool \<Rightarrow> 'a Val" where
  "FromCond zero val ok =
     (if \<not> ok then \<lparr>value = zero, state = 0\<rparr>
      else \<lparr>value = val, state = StateSet\<rparr>)"

definition Get :: "'a \<Rightarrow> 'a Val \<Rightarrow> 'a \<times> bool" where
  "Get zero v = (if state v = StateSet then (value v, True) else (zero, False))"

definition GetOr :: "'a Val \<Rightarrow> 'a \<Rightarrow> 'a" where
  "GetOr v fallback = (if state v = StateSet then value v else fallback)"

definition GetOrZero :: "'a \<Rightarrow> 'a Val \<Rightarrow> 'a" where
  "GetOrZero zero v = (if state v \<noteq> StateSet then zero else value v)"

definition MustGet :: "'a \<Rightarrow> 'a Val \<Rightarrow> panic + 'a" where
  "MustGet zero v =
     (case Get zero v of
        (val, ok) \<Rightarrow> if \<not> ok then Inl (Panic ''no value present'') else Inr val)"

text \<open>
  The method \<open>Val.Map\<close> and the function \<open>Map\<close> of the package; the struct literal
  \<open>Val[B]{state: v.state}\<close> leaves the value at the zero of the result type.
\<close>

definition Val_Map :: "'a \<Rightarrow> 'a Val \<Rightarrow> ('a \<Rightarrow> 'a) \<Rightarrow> 'a Val" where
  "Val_Map zero v fn =
     (if state v = StateSet then From (fn (value v))
      else \<lparr>value = zero, state = state v\<rparr>)"

definition Map :: "'b \<Rightarrow> 'a Val \<Rightarrow> ('a \<Rightarrow> 'b) \<Rightarrow> 'b Val" where
  "Map zero v fn =
     (if state v = StateSet then From (fn (value v))
      else \<lparr>value = zero, state = state v\<rparr>)"

definition Set :: "'a Val \<Rightarrow> 'a \<Rightarrow> 'a Val" where
  "Set v val = v\<lparr>value := val, state := StateSet\<rparr>"

definition Unset :: "'a \<Rightarrow> 'a Val \<Rightarrow> 'a Val" where
  "Unset zero v = v\<lparr>value := zero, state := StateUnset\<rparr>"

definition SetPtr :: "'a Val \<Rightarrow> 'a option \<Rightarrow> 'a Val" where
  "SetPtr v val =
     (case val of
        None \<Rightarrow> v\<lparr>state := StateUnset\<rparr>
      | Some x \<Rightarrow> v\<lparr>value := x, state := StateSet\<rparr>)"

definition IsSet :: "'a Val \<Rightarrow> bool" where
  "IsSet v = (state v = StateSet)"

definition IsUnset :: "'a Val \<Rightarrow> bool" where
  "IsUnset v = (state v = StateUnset)"

definition State :: "'a Val \<Rightarrow> state" where
  "State v = state v"

text \<open>
  \<open>Ptr\<close> has a value receiver: the pointer it returns points into the copy of the
  container, so all a caller can read through it is the value.
\<close>

definition Ptr :: "'a Val \<Rightarrow> 'a option" where
  "Ptr v = (if state v = StateSet then Some (value v) else None)"

subsection \<open>The JSON adapter\<close>

text \<open>
  Modelled from the spec: the constant \<open>globaldata.JSONNull\<close> (the package
  \<open>internal/globaldata\<close> is not among the sources), "the literal JSON null token",
  "exactly the 4-byte literal \<open>null\<close>".
\<close>

definition globaldata_JSONNull :: bytes where
  "globaldata_JSONNull = ''null''"

text \<open>
  \<open>json_Unmarshal data old\<close> stands for \<open>json.Unmarshal(data, &v.value)\<close> where
  \<open>v.value\<close> holds \<open>old\<close>: it returns what \<open>v.value\<close> holds afterwards and the error.
\<close>

definition UnmarshalJSON ::
  "(bytes \<Rightarrow> 'a \<Rightarrow> 'a \<times> error option) \<Rightarrow> 'a Val \<Rightarrow> bytes \<Rightarrow> 'a Val \<times> error option" where
  "UnmarshalJSON json_Unmarshal v data =
     (if length data = 0 then (v\<lparr>state := StateUnset\<rparr>, None)
      else if data = globaldata_JSONNull then
        (v, Some (errors_New ''cannot unmarshal 'null' value into omit value''))
      else
        (case json_Unmarshal data (value v) of
           (val, Some err) \<Rightarrow> (v\<lparr>value := val\<rparr>, Some err)
         | (val, None) \<Rightarrow> (v\<lparr>value := val, state := StateSet\<rparr>, None)))"

definition UnmarshalJSON_p0 ::
  "'a \<Rightarrow> (bytes \<Rightarrow> 'a \<Rightarrow> 'a \<times> error option) \<Rightarrow> 'a Val \<Rightarrow> bytes \<Rightarrow> 'a Val \<times> error option" where
  "UnmarshalJSON_p0 zero json_Unmarshal v data =
     (if length data = 0 then (v\<lparr>value := zero, state := StateUnset\<rparr>, None)
      else if data = globaldata_JSONNull then
        (v, Some (errors_New ''cannot unmarshal 'null' value into omit value''))
      else
        (case json_Unmarshal data (value v) of
           (val, Some err) \<Rightarrow> (v\<lparr>value := val\<rparr>, Some err)
         | (val, None) \<Rightarrow> (v\<lparr>value := val, state := StateSet\<rparr>, None)))"

definition MarshalJSON :: "('a \<Rightarrow> bytes \<times> error option) \<Rightarrow> 'a Val \<Rightarrow> bytes \<times> error option" where
  "MarshalJSON json_Marshal v =
     (if state v = StateSet then json_Marshal (value v)
      else (globaldata_JSONNull, None))"

subsection \<open>The text adapter of omit.go and the database scan\<close>

text \<open>
  \<open>ConvertAssign old src\<close> stands for \<open>opt.ConvertAssign(&dest, src)\<close> where \<open>dest\<close>
  holds \<open>old\<close>: it returns what \<open>dest\<close> holds afterwards and the error. The function
  belongs to the root package of the repository, which is not among the sources, and
  the specification leaves it open ("best-effort convert a source value into a
  destination of static type T, or fail"), so it is an argument.
\<close>

definition MarshalText :: "(string \<Rightarrow> 'a \<Rightarrow> string \<times> error option) \<Rightarrow> 'a Val \<Rightarrow> bytes \<times> error option" where
  "MarshalText ConvertAssign v =
     (if state v \<noteq> StateSet then ([], None)
      else
        (case ConvertAssign [] (value v) of
           (text, Some err) \<Rightarrow> ([], Some err)
         | (text, None) \<Rightarrow> (text, None)))"

definition UnmarshalText ::
  "('a \<Rightarrow> string \<Rightarrow> 'a \<times> error option) \<Rightarrow> 'a Val \<Rightarrow> bytes \<Rightarrow> 'a Val \<times> error option" where
  "UnmarshalText ConvertAssign v text =
     (if length text = 0 then (v\<lparr>state := StateUnset\<rparr>, None)
      else
        (case ConvertAssign (value v) text of
           (val, Some err) \<Rightarrow> (v\<lparr>value := val\<rparr>, Some err)
         | (val, None) \<Rightarrow> (v\<lparr>value := val, state := StateSet\<rparr>, None)))"

text \<open>
  The argument of \<open>Scan\<close> has the interface type \<open>any\<close>; \<open>None\<close> is the \<open>nil\<close>
  interface and \<open>Some src\<close> any other value. \<open>Scan\<close> is the same in both files.
\<close>

definition Scan ::
  "('a \<Rightarrow> 's \<Rightarrow> 'a \<times> error option) \<Rightarrow> 'a Val \<Rightarrow> 's option \<Rightarrow> 'a Val \<times> error option" where
  "Scan ConvertAssign v val =
     (case val of
        None \<Rightarrow> (v, Some (errors_New ''cannot store 'null' value in omit value''))
      | Some src \<Rightarrow>
          (let v1 = v\<lparr>state := StateSet\<rparr> in
           case ConvertAssign (value v1) src of
             (x, err) \<Rightarrow> (v1\<lparr>value := x\<rparr>, err)))"

subsection \<open>Reflection\<close>

text \<open>
  \<open>MarshalJSONIsZero\<close>, \<open>Value\<close> and the text adapter of \<open>part_000\<close> inspect the held
  value through the package \<open>reflect\<close> of Go's standard library. The model of that
  package follows its documentation. \<open>Kind\<close> is \<open>reflect.Kind\<close>; the source writes
  \<open>reflect.Ptr\<close> for the kind of pointers.
\<close>

datatype Kind =
    reflect_Invalid
  | reflect_Bool
  | reflect_Int | reflect_Int8 | reflect_Int16 | reflect_Int32 | reflect_Int64
  | reflect_Uint | reflect_Uint8 | reflect_Uint16 | reflect_Uint32 | reflect_Uint64
  | reflect_Uintptr
  | reflect_Float32 | reflect_Float64
  | reflect_Complex64 | reflect_Complex128
  | reflect_Array | reflect_Chan | reflect_Func | reflect_Interface | reflect_Map
  | reflect_Ptr | reflect_Slice | reflect_String | reflect_Struct
  | reflect_UnsafePointer

text \<open>
  A Go type, as \<open>reflect.Type\<close> describes it: the predeclared types, the type
  constructors, and \<open>Defined name t\<close> for a declared type \<open>type name t\<close>, which has
  the kind and the element type of \<open>t\<close>. Function, interface and struct types carry
  their source text only. The datatype is well-founded, so a type that is declared as
  a pointer to itself (\<open>type P *P\<close>) is outside the model.
\<close>

datatype rtype =
    bool_t
  | int_t | int8_t | int16_t | int32_t | int64_t
  | uint_t | uint8_t | uint16_t | uint32_t | uint64_t | uintptr_t
  | float32_t | float64_t | complex64_t | complex128_t
  | string_t
  | unsafe_Pointer_t
  | ArrayOf nat rtype
  | ChanOf rtype
  | FuncOf string
  | InterfaceOf string
  | MapOf rtype rtype
  | PointerTo rtype
  | SliceOf rtype
  | StructOf string
  | Defined string rtype

primrec Type_Kind :: "rtype \<Rightarrow> Kind" where
  "Type_Kind bool_t = reflect_Bool"
| "Type_Kind int_t = reflect_Int"
| "Type_Kind int8_t = reflect_Int8"
| "Type_Kind int16_t = reflect_Int16"
| "Type_Kind int32_t = reflect_Int32"
| "Type_Kind int64_t = reflect_Int64"
| "Type_Kind uint_t = reflect_Uint"
| "Type_Kind uint8_t = reflect_Uint8"
| "Type_Kind uint16_t = reflect_Uint16"
| "Type_Kind uint32_t = reflect_Uint32"
| "Type_Kind uint64_t = reflect_Uint64"
| "Type_Kind uintptr_t = reflect_Uintptr"
| "Type_Kind float32_t = reflect_Float32"
| "Type_Kind float64_t = reflect_Float64"
| "Type_Kind complex64_t = reflect_Complex64"
| "Type_Kind complex128_t = reflect_Complex128"
| "Type_Kind string_t = reflect_String"
| "Type_Kind unsafe_Pointer_t = reflect_UnsafePointer"
| "Type_Kind (ArrayOf n t) = reflect_Array"
| "Type_Kind (ChanOf t) = reflect_Chan"
| "Type_Kind (FuncOf s) = reflect_Func"
| "Type_Kind (InterfaceOf s) = reflect_Interface"
| "Type_Kind (MapOf k t) = reflect_Map"
| "Type_Kind (PointerTo t) = reflect_Ptr"
| "Type_Kind (SliceOf t) = reflect_Slice"
| "Type_Kind (StructOf s) = reflect_Struct"
| "Type_Kind (Defined s t) = Type_Kind t"

text \<open>\<open>Type.Elem\<close> panics unless the kind is Array, Chan, Map, Pointer or Slice.\<close>

primrec Type_Elem :: "rtype \<Rightarrow> panic + rtype" where
  "Type_Elem bool_t = Inl (Panic ''reflect: Elem of invalid type'')"
| "Type_Elem int_t = Inl (Panic ''reflect: Elem of invalid type'')"
| "Type_Elem int8_t = Inl (Panic ''reflect: Elem of invalid type'')"
| "Type_Elem int16_t = Inl (Panic ''reflect: Elem of invalid type'')"
| "Type_Elem int32_t = Inl (Panic ''reflect: Elem of invalid type'')"
| "Type_Elem int64_t = Inl (Panic ''reflect: Elem of invalid type'')"
| "Type_Elem uint_t = Inl (Panic ''reflect: Elem of invalid type'')"
| "Type_Elem uint8_t = Inl (Panic ''reflect: Elem of invalid type'')"
| "Type_Elem uint16_t = Inl (Panic ''reflect: Elem of invalid type'')"
| "Type_Elem uint32_t = Inl (Panic ''reflect: Elem of invalid type'')"
| "Type_Elem uint64_t = Inl (Panic ''reflect: Elem of invalid type'')"
| "Type_Elem uintptr_t = Inl (Panic ''reflect: Elem of invalid type'')"
| "Type_Elem float32_t = Inl (Panic ''reflect: Elem of invalid type'')"
| "Type_Elem float64_t = Inl (Panic ''reflect: Elem of invalid type'')"
| "Type_Elem complex64_t = Inl (Panic ''reflect: Elem of invalid type'')"
| "Type_Elem complex128_t = Inl (Panic ''reflect: Elem of invalid type'')"
| "Type_Elem string_t = Inl (Panic ''reflect: Elem of invalid type'')"
| "Type_Elem unsafe_Pointer_t = Inl (Panic ''reflect: Elem of invalid type'')"
| "Type_Elem (ArrayOf n t) = Inr t"
| "Type_Elem (ChanOf t) = Inr t"
| "Type_Elem (FuncOf s) = Inl (Panic ''reflect: Elem of invalid type'')"
| "Type_Elem (InterfaceOf s) = Inl (Panic ''reflect: Elem of invalid type'')"
| "Type_Elem (MapOf k t) = Inr t"
| "Type_Elem (PointerTo t) = Inr t"
| "Type_Elem (SliceOf t) = Inr t"
| "Type_Elem (StructOf s) = Inl (Panic ''reflect: Elem of invalid type'')"
| "Type_Elem (Defined s t) = Type_Elem t"

text \<open>
  What a value holds beside its type. Integers of every width are held sign-extended
  (signed kinds) or zero-extended (unsigned kinds) to 64 bits, floating-point numbers
  as their bits. \<open>P_nil\<close> is the \<open>nil\<close> pointer, slice, map, channel or function.
\<close>

datatype payload =
    P_nil
  | P_bool bool
  | P_bits "64 word"
  | P_string string
  | P_ptr payload
  | P_elems "payload list"
  | P_map "(payload \<times> payload) list"
  | P_fields "payload list"
  | P_opaque nat

text \<open>
  A value of the interface type \<open>any\<close>: the \<open>nil\<close> interface, or a dynamic type with
  a value of that type. A field \<open>value T\<close> that is inspected by reflection is held
  as the \<open>any\<close> that \<open>reflect.ValueOf(v.value)\<close> receives: \<open>dyn T p\<close> when \<open>T\<close> is
  not an interface type, and for an interface type \<open>T\<close> the interface value itself.
\<close>

datatype any = nil | dyn rtype payload

text \<open>
  \<open>reflect.Value\<close> is the inspected value; the zero \<open>Value\<close>, which
  \<open>reflect.ValueOf(nil)\<close> returns, is \<open>nil\<close>.
\<close>

type_synonym reflect_Value = any

definition reflect_ValueOf :: "any \<Rightarrow> reflect_Value" where
  "reflect_ValueOf i = i"

text \<open>\<open>reflect.TypeOf\<close> returns the \<open>nil\<close> Type (\<open>None\<close>) for the \<open>nil\<close> interface.\<close>

definition reflect_TypeOf :: "any \<Rightarrow> rtype option" where
  "reflect_TypeOf i = (case i of nil \<Rightarrow> None | dyn t p \<Rightarrow> Some t)"

definition Value_Type :: "reflect_Value \<Rightarrow> panic + rtype" where
  "Value_Type rv =
     (case rv of
        nil \<Rightarrow> Inl (Panic ''reflect: call of reflect.Value.Type on zero Value'')
      | dyn t p \<Rightarrow> Inr t)"

definition Value_Kind :: "reflect_Value \<Rightarrow> Kind" where
  "Value_Kind rv = (case rv of nil \<Rightarrow> reflect_Invalid | dyn t p \<Rightarrow> Type_Kind t)"

text \<open>
  \<open>Value.IsNil\<close>: "The argument must be a chan, func, interface, map, pointer, or slice
  value; if it is not, IsNil panics."
\<close>

definition Value_IsNil :: "reflect_Value \<Rightarrow> panic + bool" where
  "Value_IsNil rv =
     (if Value_Kind rv \<in> {reflect_Chan, reflect_Func, reflect_Map, reflect_Ptr,
                           reflect_UnsafePointer, reflect_Interface, reflect_Slice}
      then (case rv of nil \<Rightarrow> Inr True | dyn t p \<Rightarrow> Inr (p = P_nil))
      else Inl (Panic ''reflect: call of reflect.Value.IsNil on non-nilable Value''))"

definition bits_of :: "payload \<Rightarrow> 64 word" where
  "bits_of p = (case p of P_bits w \<Rightarrow> w | _ \<Rightarrow> 0)"

text \<open>
  \<open>Value.Int\<close> reads a signed integer of the kind's width as an \<open>int64\<close> and panics
  for every other kind; \<open>int\<close> has 64 bits.
\<close>

definition Value_Int :: "reflect_Value \<Rightarrow> panic + 64 word" where
  "Value_Int rv =
     (case rv of
        nil \<Rightarrow> Inl (Panic ''reflect: call of reflect.Value.Int on zero Value'')
      | dyn t p \<Rightarrow>
          if Type_Kind t = reflect_Int \<or> Type_Kind t = reflect_Int64 then Inr (bits_of p)
          else if Type_Kind t = reflect_Int8 then Inr (signed_take_bit 7 (bits_of p))
          else if Type_Kind t = reflect_Int16 then Inr (signed_take_bit 15 (bits_of p))
          else if Type_Kind t = reflect_Int32 then Inr (signed_take_bit 31 (bits_of p))
          else Inl (Panic ''reflect: call of reflect.Value.Int on non-int Value''))"

text \<open>
  \<open>Value.Uint\<close> reads an unsigned integer of the kind's width as a \<open>uint64\<close> and
  panics for every other kind; \<open>uint\<close> and \<open>uintptr\<close> have 64 bits.
\<close>

definition Value_Uint :: "reflect_Value \<Rightarrow> panic + 64 word" where
  "Value_Uint rv =
     (case rv of
        nil \<Rightarrow> Inl (Panic ''reflect: call of reflect.Value.Uint on zero Value'')
      | dyn t p \<Rightarrow>
          if Type_Kind t = reflect_Uint \<or> Type_Kind t = reflect_Uint64 \<or> Type_Kind t = reflect_Uintptr
          then Inr (bits_of p)
          else if Type_Kind t = reflect_Uint8 then Inr (take_bit 8 (bits_of p))
          else if Type_Kind t = reflect_Uint16 then Inr (take_bit 16 (bits_of p))
          else if Type_Kind t = reflect_Uint32 then Inr (take_bit 32 (bits_of p))
          else Inl (Panic ''reflect: call of reflect.Value.Uint on non-uint Value''))"

text \<open>
  Modelled from the spec: \<open>globaldata.Int64Type\<close> and \<open>globaldata.TimeTimeType\<close> (the
  package \<open>internal/globaldata\<close> is not among the sources), "a signed 64-bit
  representation" and "a recognized calendar/timestamp aggregate": the types of
  \<open>int64\<close> and of \<open>time.Time\<close>.
\<close>

definition globaldata_Int64Type :: rtype where
  "globaldata_Int64Type = int64_t"

definition globaldata_TimeTimeType :: rtype where
  "globaldata_TimeTimeType = Defined ''time.Time'' (StructOf ''struct { wall uint64; ext int64; loc *Location }'')"

text \<open>
  \<open>refVal.Convert(globaldata.Int64Type)\<close> for a value of an unsigned integer kind, the
  only conversion the package makes: the result is the \<open>int64\<close> with the bits of
  \<open>refVal.Uint()\<close>, so a \<open>uint64\<close> above the range of \<open>int64\<close> wraps around.
\<close>

definition Value_Convert_Int64Type :: "reflect_Value \<Rightarrow> panic + reflect_Value" where
  "Value_Convert_Int64Type rv =
     (case Value_Uint rv of
        Inl p \<Rightarrow> Inl p
      | Inr w \<Rightarrow> Inr (dyn globaldata_Int64Type (P_bits w)))"

text \<open>
  An interface of method \<open>'m\<close> is given by the types that implement it: \<open>intf t\<close> is
  \<open>None\<close> when the method set of \<open>t\<close> lacks the method and \<open>Some m\<close>, with the method
  \<open>m\<close> of \<open>t\<close>, when it has it. \<open>globaldata.DriverValuerIntf\<close>,
  \<open>globaldata.EncodingTextMarshalerIntf\<close> and \<open>globaldata.EncodingTextUnmarshalerIntf\<close>
  are arguments of this type, since the methods of \<open>T\<close> are code of the caller.
\<close>

type_synonym 'm intf = "rtype \<Rightarrow> 'm option"

definition Implements :: "rtype \<Rightarrow> 'm intf \<Rightarrow> bool" where
  "Implements t u = (u t \<noteq> None)"

subsection \<open>The zero-detection hook of part_000\<close>

lemma Type_Elem_size: "Type_Elem t = Inr e \<Longrightarrow> size e < size t"
  by (induction t) auto

text \<open>The loop \<open>for typ.Kind() == reflect.Ptr { typ = typ.Elem() }\<close>.\<close>

function MarshalJSONIsZero_loop :: "rtype \<Rightarrow> panic + rtype" where
  "MarshalJSONIsZero_loop typ =
     (if Type_Kind typ = reflect_Ptr then
        (case Type_Elem typ of
           Inl p \<Rightarrow> Inl p
         | Inr e \<Rightarrow> MarshalJSONIsZero_loop e)
      else Inr typ)"
  by pat_completeness auto
termination
  by (relation "measure size") (auto simp: Type_Elem_size)

text \<open>
  \<open>reflect.TypeOf(v.value)\<close> is the \<open>nil\<close> Type when \<open>T\<close> is an interface type and
  the value is the \<open>nil\<close> interface; \<open>typ.Kind()\<close> on it is a call through a \<open>nil\<close>
  interface, which panics.
\<close>

definition MarshalJSONIsZero :: "any Val \<Rightarrow> panic + bool" where
  "MarshalJSONIsZero v =
     (if state v = StateUnset then Inr True
      else
        (case reflect_TypeOf (value v) of
           None \<Rightarrow> Inl (Panic ''runtime error: invalid memory address or nil pointer dereference'')
         | Some typ0 \<Rightarrow>
             (case MarshalJSONIsZero_loop typ0 of
                Inl p \<Rightarrow> Inl p
              | Inr typ \<Rightarrow>
                  if Type_Kind typ \<in> {reflect_Map, reflect_Struct, reflect_Slice} then
                    (case Value_IsNil (reflect_ValueOf (value v)) of
                       Inl p \<Rightarrow> Inl p
                     | Inr True \<Rightarrow> Inr True
                     | Inr False \<Rightarrow> Inr False)
                  else Inr False)))"

subsection \<open>The text adapter of part_000\<close>

text \<open>
  \<open>refVal.Type()\<close> panics on the zero \<open>Value\<close>; the model calls it once and keeps
  the type. When the type implements the interface, the value is asserted to the
  interface and its method is called.
\<close>

definition MarshalText_p0 ::
  "(any \<Rightarrow> bytes \<times> error option) intf \<Rightarrow> (string \<Rightarrow> any \<Rightarrow> string \<times> error option) \<Rightarrow>
   any Val \<Rightarrow> panic + (bytes \<times> error option)" where
  "MarshalText_p0 globaldata_EncodingTextMarshalerIntf ConvertAssign v =
     (if state v \<noteq> StateSet then Inr ([], None)
      else
        (let refVal = reflect_ValueOf (value v) in
         case Value_Type refVal of
           Inl p \<Rightarrow> Inl p
         | Inr typ \<Rightarrow>
             (case globaldata_EncodingTextMarshalerIntf typ of
                Some valuer_MarshalText \<Rightarrow> Inr (valuer_MarshalText (value v))
              | None \<Rightarrow>
                  (case ConvertAssign [] (value v) of
                     (text, Some err) \<Rightarrow> Inr ([], Some err)
                   | (text, None) \<Rightarrow> Inr (text, None)))))"

text \<open>
  \<open>reflect.ValueOf(&v.value)\<close> is a pointer that is never \<open>nil\<close>, of the type
  \<open>*T\<close>: the static type \<open>T\<close> of the container is the argument \<open>T\<close>. The method
  \<open>UnmarshalText\<close> of \<open>*T\<close> writes through the pointer, so it takes the old value
  and returns the new one.
\<close>

definition UnmarshalText_p0 ::
  "'a \<Rightarrow> rtype \<Rightarrow> (bytes \<Rightarrow> 'a \<Rightarrow> 'a \<times> error option) intf \<Rightarrow> ('a \<Rightarrow> string \<Rightarrow> 'a \<times> error option) \<Rightarrow>
   'a Val \<Rightarrow> bytes \<Rightarrow> 'a Val \<times> error option" where
  "UnmarshalText_p0 zero T globaldata_EncodingTextUnmarshalerIntf ConvertAssign v text =
     (if length text = 0 then (v\<lparr>value := zero, state := StateUnset\<rparr>, None)
      else
        (case globaldata_EncodingTextUnmarshalerIntf (PointerTo T) of
           Some valuer_UnmarshalText \<Rightarrow>
             (case valuer_UnmarshalText text (value v) of
                (val, Some err) \<Rightarrow> (v\<lparr>value := val\<rparr>, Some err)
              | (val, None) \<Rightarrow> (v\<lparr>value := val, state := StateSet\<rparr>, None))
         | None \<Rightarrow>
             (case ConvertAssign (value v) text of
                (val, Some err) \<Rightarrow> (v\<lparr>value := val\<rparr>, Some err)
              | (val, None) \<Rightarrow> (v\<lparr>value := val, state := StateSet\<rparr>, None))))"

subsection \<open>The database value\<close>

text \<open>
  A \<open>driver.Value\<close> is an \<open>any\<close>. \<open>Value\<close> of \<open>omit.go\<close> converts the held value by
  its kind; the \<open>int64\<close> that \<open>refVal.Int()\<close> returns is boxed as
  \<open>dyn int64_t (P_bits i)\<close>.
\<close>

definition Value :: "(any \<Rightarrow> any \<times> error option) intf \<Rightarrow> any Val \<Rightarrow> panic + (any \<times> error option)" where
  "Value globaldata_DriverValuerIntf v =
     (if state v \<noteq> StateSet then Inr (nil, None)
      else
        (let refVal = reflect_ValueOf (value v) in
         case Value_Type refVal of
           Inl p \<Rightarrow> Inl p
         | Inr typ \<Rightarrow>
             (case globaldata_DriverValuerIntf typ of
                Some valuer_Value \<Rightarrow> Inr (valuer_Value (value v))
              | None \<Rightarrow>
                  (let k = Value_Kind refVal in
                   if k \<in> {reflect_Int, reflect_Int8, reflect_Int16, reflect_Int32, reflect_Int64} then
                     (case Value_Int refVal of
                        Inl p \<Rightarrow> Inl p
                      | Inr i \<Rightarrow> Inr (dyn int64_t (P_bits i), None))
                   else if k \<in> {reflect_Uint, reflect_Uint8, reflect_Uint16, reflect_Uint32, reflect_Uint64} then
                     (case Value_Convert_Int64Type refVal of
                        Inl p \<Rightarrow> Inl p
                      | Inr newVal \<Rightarrow>
                          (case Value_Int newVal of
                             Inl p \<Rightarrow> Inl p
                           | Inr i \<Rightarrow> Inr (dyn int64_t (P_bits i), None)))
                   else if k = reflect_Bool then Inr (value v, None)
                   else if k = reflect_String then Inr (value v, None)
                   else if k = reflect_Slice then
                     (case Type_Elem typ of
                        Inl p \<Rightarrow> Inl p
                      | Inr e \<Rightarrow>
                          (let itemKind = Type_Kind e in
                           if itemKind = reflect_Uint8 then Inr (value v, None)
                           else Inr (nil, Some (errors_New ''underlying slice type has no implementation for driver.Valuer''))))
                   else if k = reflect_Struct then
                     (if typ = globaldata_TimeTimeType then Inr (value v, None)
                      else Inr (nil, Some (errors_New ''underlying struct type has no implementation for driver.Valuer'')))
                   else Inr (nil, Some (errors_New ''underlying type has no implementation for driver.Valuer''))))))"

definition Value_p0 :: "(any \<Rightarrow> any \<times> error option) intf \<Rightarrow> any Val \<Rightarrow> panic + (any \<times> error option)" where
  "Value_p0 globaldata_DriverValuerIntf v =
     (if state v \<noteq> StateSet then Inr (nil, None)
      else
        (let refVal = reflect_ValueOf (value v) in
         case Value_Type refVal of
           Inl p \<Rightarrow> Inl p
         | Inr typ \<Rightarrow>
             (case globaldata_DriverValuerIntf typ of
                Some valuer_Value \<Rightarrow> Inr (valuer_Value (value v))
              | None \<Rightarrow> Inr (value v, None))))"

subsection \<open>Instances used in examples\<close>

text \<open>
  \<open>json.Marshal\<close> and \<open>json.Unmarshal\<close> at the type \<open>*bool\<close>, a pointer being an
  option: the \<open>nil\<close> pointer is encoded as \<open>null\<close>, and \<open>null\<close> is decoded as the
  \<open>nil\<close> pointer.
\<close>

definition ptr_bool_Marshal :: "bool option \<Rightarrow> bytes \<times> error option" where
  "ptr_bool_Marshal x =
     (case x of
        None \<Rightarrow> (''null'', None)
      | Some b \<Rightarrow> (if b then ''true'' else ''false'', None))"

definition ptr_bool_Unmarshal :: "bytes \<Rightarrow> bool option \<Rightarrow> bool option \<times> error option" where
  "ptr_bool_Unmarshal data old =
     (if data = ''null'' then (None, None)
      else if data = ''true'' then (Some True, None)
      else if data = ''false'' then (Some False, None)
      else (old, Some (errors_New ''invalid character'')))"

text \<open>
  Modelled from the spec: \<open>opt.ConvertAssign\<close> (the root package is not among the
  sources) at a destination \<open>*string\<close> and a source \<open>string\<close>: "scanning
  \<open>"hello"\<close> into \<open>Optional<string>\<close> yields \<open>Set\<close>/\<open>"hello"\<close>".
\<close>

definition ConvertAssign_string :: "string \<Rightarrow> string \<Rightarrow> string \<times> error option" where
  "ConvertAssign_string old src = (src, None)"

text \<open>
  \<open>opt.ConvertAssign\<close> at a pair of source and destination types it cannot
  convert between: it fails and leaves the destination as it was.
\<close>

definition ConvertAssign_unsupported :: "'d \<Rightarrow> 's \<Rightarrow> 'd \<times> error option" where
  "ConvertAssign_unsupported old src = (old, Some (errors_New ''unsupported Scan''))"

text \<open>
  A type \<open>type Raw []byte\<close> whose pointer has the method
  \<open>func (r *Raw) UnmarshalText(text []byte) error\<close> that stores the text, and the
  interface \<open>encoding.TextUnmarshaler\<close> in a program where \<open>*Raw\<close> is the only type
  that implements it.
\<close>

definition Raw_t :: rtype where
  "Raw_t = Defined ''Raw'' (SliceOf uint8_t)"

definition Raw_UnmarshalText :: "bytes \<Rightarrow> bytes \<Rightarrow> bytes \<times> error option" where
  "Raw_UnmarshalText text old = (text, None)"

definition Raw_TextUnmarshalerIntf :: "(bytes \<Rightarrow> bytes \<Rightarrow> bytes \<times> error option) intf" where
  "Raw_TextUnmarshalerIntf t = (if t = PointerTo Raw_t then Some Raw_UnmarshalText else None)"

text \<open>
  The types of the package's tests: \<open>type testStruct struct { ID int }\<close>, and
  \<open>type valuerImplementation struct{}\<close> with the method
  \<open>func (valuerImplementation) Value() (driver.Value, error) { return int64(1), nil }\<close>;
  \<open>test_DriverValuerIntf\<close> is \<open>driver.Valuer\<close> in the test program, where
  \<open>valuerImplementation\<close> is the only type in use that implements it.
\<close>

definition testStruct_t :: rtype where
  "testStruct_t = Defined ''testStruct'' (StructOf ''struct { ID int }'')"




section \<open>Properties\<close>

subsection \<open>JSON decoding\<close>

text \<open>
  C1: \<open>UnmarshalJSON\<close>, in both files, on empty input leaves the container unset and
  returns no error; on the input \<open>null\<close> it returns an error and the container as it
  was; on any other input it decodes the bytes into the value, and the container is
  set with the decoded value when the decoder succeeds, while on a failure the
  decoder's error is returned and the state is the one before the call.
\<close>

theorem UnmarshalJSON_contract:
  "(data = [] \<longrightarrow>
      IsUnset (fst (UnmarshalJSON dec v data)) \<and> snd (UnmarshalJSON dec v data) = None \<and>
      IsUnset (fst (UnmarshalJSON_p0 zero dec v data)) \<and> snd (UnmarshalJSON_p0 zero dec v data) = None) \<and>
   (data = globaldata_JSONNull \<longrightarrow>
      (UnmarshalJSON dec v data =
        (v, Some (errors_New ''cannot unmarshal 'null' value into omit value''))) \<and>
      (UnmarshalJSON_p0 zero dec v data =
        (v, Some (errors_New ''cannot unmarshal 'null' value into omit value'')))) \<and>
   (data \<noteq> [] \<and> data \<noteq> globaldata_JSONNull \<longrightarrow>
      (\<forall>x. dec data (value v) = (x, None) \<longrightarrow>
         UnmarshalJSON dec v data = (From x, None) \<and>
         UnmarshalJSON_p0 zero dec v data = (From x, None)) \<and>
      (\<forall>x e. dec data (value v) = (x, Some e) \<longrightarrow>
         snd (UnmarshalJSON dec v data) = Some e \<and>
         state (fst (UnmarshalJSON dec v data)) = state v \<and>
         snd (UnmarshalJSON_p0 zero dec v data) = Some e \<and>
         state (fst (UnmarshalJSON_p0 zero dec v data)) = state v))"
  by (simp add: UnmarshalJSON_def UnmarshalJSON_p0_def IsUnset_def From_def globaldata_JSONNull_def)

theorem UnmarshalJSON_contract_witness:
  "IsUnset (fst (UnmarshalJSON ptr_bool_Unmarshal (From (Some True)) [])) \<and>
   snd (UnmarshalJSON ptr_bool_Unmarshal (From (Some True)) []) = None \<and>
   (UnmarshalJSON ptr_bool_Unmarshal (From (Some True)) ''null'' =
        (From (Some True), Some (errors_New ''cannot unmarshal 'null' value into omit value''))) \<and>
   ptr_bool_Unmarshal ''false'' (Some True) = (Some False, None) \<and>
   UnmarshalJSON_p0 None ptr_bool_Unmarshal (From (Some True)) ''false'' = (From (Some False), None) \<and>
   ptr_bool_Unmarshal ''maybe'' None = (None, Some (errors_New ''invalid character'')) \<and>
   snd (UnmarshalJSON ptr_bool_Unmarshal (New None) ''maybe'') = Some (errors_New ''invalid character'') \<and>
   state (fst (UnmarshalJSON ptr_bool_Unmarshal (New None) ''maybe'')) = StateUnset"
  using UnmarshalJSON_contract [of "[]" ptr_bool_Unmarshal "From (Some True)" None]
    UnmarshalJSON_contract [of "''null''" ptr_bool_Unmarshal "From (Some True)" None]
    UnmarshalJSON_contract [of "''false''" ptr_bool_Unmarshal "From (Some True)" None]
    UnmarshalJSON_contract [of "''maybe''" ptr_bool_Unmarshal "New None" None]
  by (simp add: globaldata_JSONNull_def ptr_bool_Unmarshal_def From_def New_def StateUnset_def)

subsection \<open>Accessors\<close>

text \<open>
  C10: \<open>MustGet\<close> returns the held value when the container is set; when it is unset
  it panics, and so returns no value.
\<close>

theorem MustGet_set_or_panic:
  "(IsSet v \<longrightarrow> MustGet zero v = Inr (value v)) \<and>
   (IsUnset v \<longrightarrow>
      MustGet zero v = Inl (Panic ''no value present'') \<and> (\<forall>x. MustGet zero v \<noteq> Inr x))"
  by (simp add: MustGet_def Get_def IsSet_def IsUnset_def StateSet_def StateUnset_def)

theorem MustGet_set_or_panic_witness:
  "IsSet (From (5::int)) \<and> MustGet 0 (From (5::int)) = Inr 5 \<and>
   IsUnset (Unset 0 (From (5::int))) \<and>
   MustGet 0 (Unset 0 (From (5::int))) = Inl (Panic ''no value present'')"
  using MustGet_set_or_panic [of "From (5::int)" 0]
    MustGet_set_or_panic [of "Unset 0 (From (5::int))" 0]
  by (simp add: From_def Unset_def IsSet_def IsUnset_def StateSet_def StateUnset_def)

subsection \<open>JSON round trip\<close>

lemma ptr_bool_roundtrip:
  "snd (ptr_bool_Marshal x) = None \<and> ptr_bool_Unmarshal (fst (ptr_bool_Marshal x)) old = (x, None)"
  by (cases x) (auto simp: ptr_bool_Marshal_def ptr_bool_Unmarshal_def)




subsection \<open>The text adapter\<close>

text \<open>
  C9: decoding an empty text yields an unset container and no error, whatever the
  type, the decoder and the container before; encoding an unset container yields no
  bytes and no error. Both hold for the text adapters of both files.
\<close>

theorem text_empty_is_unset:
  "IsUnset (fst (UnmarshalText conv v [])) \<and> snd (UnmarshalText conv v []) = None \<and>
   IsUnset (fst (UnmarshalText_p0 zero T intf conv v [])) \<and>
   snd (UnmarshalText_p0 zero T intf conv v []) = None \<and>
   (IsUnset w \<longrightarrow> MarshalText conv' w = ([], None)) \<and>
   (IsUnset a \<longrightarrow> MarshalText_p0 intf' conv'' a = Inr ([], None))"
  by (simp add: UnmarshalText_def UnmarshalText_p0_def MarshalText_def MarshalText_p0_def
      IsUnset_def StateUnset_def StateSet_def)

theorem text_empty_is_unset_witness:
  "IsUnset (New ''x'') \<and>
   MarshalText ConvertAssign_string (New ''x'') = ([], None) \<and>
   IsUnset (New nil) \<and>
   MarshalText_p0 (\<lambda>t. None) ConvertAssign_unsupported (New nil) = Inr ([], None)"
  using text_empty_is_unset [where w = "New ''x''" and conv' = ConvertAssign_string
      and a = "New nil" and intf' = "\<lambda>t. None" and conv'' = ConvertAssign_unsupported
      and conv = ConvertAssign_string and v = "New ''x''" and zero = "[]" and T = string_t
      and intf = "\<lambda>t. None"]
  by (simp add: New_def IsUnset_def StateUnset_def)

text \<open>
  C7, as stated, fails for \<open>UnmarshalText\<close> of \<open>omit.go\<close>, which has no test for a
  native text decoder and always calls \<open>ConvertAssign\<close>: with the type \<open>Raw\<close>, whose
  pointer implements \<open>encoding.TextUnmarshaler\<close>, and a \<open>ConvertAssign\<close> that cannot
  convert a string to \<open>Raw\<close>, it returns the error of \<open>ConvertAssign\<close>, whereas
  \<open>UnmarshalText\<close> of \<open>part_000\<close> sets the container through the method of \<open>*Raw\<close>.
\<close>

theorem UnmarshalText_omit_go_counterexample:
  "Implements (PointerTo Raw_t) Raw_TextUnmarshalerIntf \<and>
   Raw_TextUnmarshalerIntf (PointerTo Raw_t) = Some Raw_UnmarshalText \<and>
   Raw_UnmarshalText ''1.1.1.1'' (value (New [])) = (''1.1.1.1'', None) \<and>
   UnmarshalText ConvertAssign_unsupported (New []) ''1.1.1.1''
     = (New [], Some (errors_New ''unsupported Scan'')) \<and>
   UnmarshalText_p0 [] Raw_t Raw_TextUnmarshalerIntf ConvertAssign_unsupported (New []) ''1.1.1.1''
     = (From ''1.1.1.1'', None)"
  by (simp add: Implements_def Raw_TextUnmarshalerIntf_def Raw_UnmarshalText_def
      UnmarshalText_def UnmarshalText_p0_def ConvertAssign_unsupported_def New_def From_def)

text \<open>
  C7, amended: on a non-empty text, \<open>UnmarshalText\<close> of \<open>part_000\<close> calls the method
  \<open>UnmarshalText\<close> of \<open>*T\<close> when \<open>*T\<close> implements \<open>encoding.TextUnmarshaler\<close>, the
  container being set on success and the method's error being returned, with the
  state kept, on failure; only when \<open>*T\<close> does not implement the interface does it
  do what \<open>UnmarshalText\<close> of \<open>omit.go\<close> always does: coerce the text with
  \<open>ConvertAssign\<close>, the container being set on success and the error being returned,
  with the state kept, on failure.
\<close>

theorem UnmarshalText_delegation:
  "data \<noteq> [] \<longrightarrow>
     (\<forall>m x. intf (PointerTo T) = Some m \<and> m data (value v) = (x, None) \<longrightarrow>
        UnmarshalText_p0 zero T intf conv v data = (From x, None)) \<and>
     (\<forall>m x e. intf (PointerTo T) = Some m \<and> m data (value v) = (x, Some e) \<longrightarrow>
        snd (UnmarshalText_p0 zero T intf conv v data) = Some e \<and>
        state (fst (UnmarshalText_p0 zero T intf conv v data)) = state v) \<and>
     (\<not> Implements (PointerTo T) intf \<longrightarrow>
        UnmarshalText_p0 zero T intf conv v data = UnmarshalText conv v data) \<and>
     (\<forall>x. conv (value v) data = (x, None) \<longrightarrow> UnmarshalText conv v data = (From x, None)) \<and>
     (\<forall>x e. conv (value v) data = (x, Some e) \<longrightarrow>
        snd (UnmarshalText conv v data) = Some e \<and>
        state (fst (UnmarshalText conv v data)) = state v)"
  by (simp add: UnmarshalText_p0_def UnmarshalText_def Implements_def From_def)

theorem UnmarshalText_delegation_witness:
  "''1.1.1.1'' \<noteq> [] \<and>
   Raw_TextUnmarshalerIntf (PointerTo Raw_t) = Some Raw_UnmarshalText \<and>
   Raw_UnmarshalText ''1.1.1.1'' (value (New [])) = (''1.1.1.1'', None) \<and>
   UnmarshalText_p0 [] Raw_t Raw_TextUnmarshalerIntf ConvertAssign_unsupported (New []) ''1.1.1.1''
     = (From ''1.1.1.1'', None) \<and>
   \<not> Implements (PointerTo string_t) Raw_TextUnmarshalerIntf \<and>
   ConvertAssign_string (value (New [])) ''hello'' = (''hello'', None) \<and>
   UnmarshalText_p0 [] string_t Raw_TextUnmarshalerIntf ConvertAssign_string (New []) ''hello''
     = (From ''hello'', None) \<and>
   UnmarshalText ConvertAssign_string (New []) ''hello'' = (From ''hello'', None)"
  using UnmarshalText_delegation [where data = "''1.1.1.1''" and intf = Raw_TextUnmarshalerIntf
      and T = Raw_t and v = "New []" and zero = "[]" and conv = ConvertAssign_unsupported]
    UnmarshalText_delegation [where data = "''hello''" and intf = Raw_TextUnmarshalerIntf
      and T = string_t and v = "New []" and zero = "[]" and conv = ConvertAssign_string]
  by (simp add: Implements_def Raw_TextUnmarshalerIntf_def Raw_UnmarshalText_def Raw_t_def
      ConvertAssign_string_def ConvertAssign_unsupported_def New_def)

subsection \<open>The database scan\<close>

text \<open>
  C5: \<open>Scan\<close> of the \<open>nil\<close> source returns an error and the container as it was;
  \<open>Scan\<close> of any other source coerces it with \<open>ConvertAssign\<close>, and when that
  succeeds the container is set with the converted value. The witness scans
  \<open>"hello"\<close> into a container of strings.
\<close>

theorem Scan_contract:
  "Scan conv v None = (v, Some (errors_New ''cannot store 'null' value in omit value'')) \<and>
   (\<forall>x. conv (value v) src = (x, None) \<longrightarrow> Scan conv v (Some src) = (From x, None))"
  by (simp add: Scan_def From_def)

theorem Scan_contract_witness:
  "ConvertAssign_string (value (New [])) ''hello'' = (''hello'', None) \<and>
   Scan ConvertAssign_string (New []) (Some ''hello'') = (From ''hello'', None) \<and>
   IsSet (From ''hello'') \<and> value (From ''hello'') = ''hello''"
  using Scan_contract [where conv = ConvertAssign_string and v = "New []" and src = "''hello''"]
  by (simp add: ConvertAssign_string_def From_def IsSet_def)



subsection \<open>The value of an unset container is not observable\<close>

text \<open>
  C8: two unset containers give equal results under every observer of the package,
  whatever their value fields hold: \<open>Get\<close>, \<open>GetOr\<close>, \<open>GetOrZero\<close>, \<open>MustGet\<close>,
  \<open>Ptr\<close>, \<open>IsSet\<close>, \<open>IsUnset\<close>, \<open>State\<close>, both \<open>Map\<close>s, \<open>MarshalJSON\<close>,
  \<open>MarshalJSONIsZero\<close>, and \<open>MarshalText\<close> and \<open>Value\<close> of both files. In the
  witness one container keeps the value 7 that \<open>SetPtr\<close> leaves behind.
\<close>

theorem unset_value_not_observable:
  assumes "IsUnset v" and "IsUnset w" and "IsUnset a" and "IsUnset b"
  shows "Get zero v = Get zero w \<and> GetOr v fallback = GetOr w fallback \<and>
    GetOrZero zero v = GetOrZero zero w \<and> MustGet zero v = MustGet zero w \<and>
    Ptr v = Ptr w \<and> IsSet v = IsSet w \<and> IsUnset v = IsUnset w \<and> State v = State w \<and>
    Val_Map zero v fn = Val_Map zero w fn \<and> Map zero' v fn' = Map zero' w fn' \<and>
    MarshalJSON enc v = MarshalJSON enc w \<and> MarshalText conv v = MarshalText conv w \<and>
    MarshalJSONIsZero a = MarshalJSONIsZero b \<and>
    MarshalText_p0 tm conv' a = MarshalText_p0 tm conv' b \<and>
    Value dv a = Value dv b \<and> Value_p0 dv a = Value_p0 dv b"
  using assms
  by (simp add: IsUnset_def IsSet_def StateUnset_def StateSet_def Get_def GetOr_def GetOrZero_def
      MustGet_def Ptr_def State_def Val_Map_def Map_def MarshalJSON_def MarshalText_def
      MarshalJSONIsZero_def MarshalText_p0_def Value_def Value_p0_def)

theorem unset_value_not_observable_witness:
  "IsUnset (SetPtr (From (7::int)) None) \<and> value (SetPtr (From (7::int)) None) = 7 \<and>
   IsUnset (New (0::int)) \<and> value (New (0::int)) = 0 \<and>
   Get 0 (SetPtr (From (7::int)) None) = Get 0 (New 0) \<and>
   Ptr (SetPtr (From (7::int)) None) = Ptr (New 0) \<and>
   MarshalJSONIsZero (SetPtr (From (dyn int_t (P_bits 7))) None) = MarshalJSONIsZero (New nil) \<and>
   Value (\<lambda>t. None) (SetPtr (From (dyn int_t (P_bits 7))) None) = Value (\<lambda>t. None) (New nil)"
  using unset_value_not_observable [where v = "SetPtr (From (7::int)) None" and w = "New 0"
      and a = "SetPtr (From (dyn int_t (P_bits 7))) None" and b = "New nil" and zero = 0
      and dv = "\<lambda>t. None" and fallback = 1 and fn = "\<lambda>i. i + 1" and zero' = False
      and fn' = "\<lambda>i. i = 0" and enc = "\<lambda>i. ([], None)" and conv = "\<lambda>old i. (old, None)"
      and tm = "\<lambda>t. None" and conv' = "\<lambda>old i. (old, None)"]
  by (simp add: SetPtr_def From_def New_def IsUnset_def StateUnset_def)

subsection \<open>The zero-detection hook\<close>

lemma Type_Elem_Ptr: "Type_Kind t = reflect_Ptr \<Longrightarrow> \<exists>e. Type_Elem t = Inr e"
  by (induction t) auto


text \<open>
  The loop never panics: it returns a type that is not a pointer, the type it was
  given unless that is a pointer.
\<close>

lemma MarshalJSONIsZero_loop_result:
  "\<exists>t'. MarshalJSONIsZero_loop t = Inr t' \<and> Type_Kind t' \<noteq> reflect_Ptr \<and>
        (t' = t \<or> Type_Kind t = reflect_Ptr)"
proof (induction t rule: MarshalJSONIsZero_loop.induct)
  case (1 ty)
  show ?case
  proof (cases "Type_Kind ty = reflect_Ptr")
    case True
    then obtain e where e: "Type_Elem ty = Inr e"
      using Type_Elem_Ptr by blast
    from "1.IH" [OF True e] obtain t' where
      "MarshalJSONIsZero_loop e = Inr t'" and "Type_Kind t' \<noteq> reflect_Ptr"
      by blast
    with True e show ?thesis
      by simp
  next
    case False
    then show ?thesis
      by simp
  qed
qed

lemma MarshalJSONIsZero_unset: "IsUnset v \<Longrightarrow> MarshalJSONIsZero v = Inr True"
  by (simp add: MarshalJSONIsZero_def IsUnset_def)

lemma MarshalJSONIsZero_nil_interface:
  "IsSet v \<Longrightarrow> value v = nil \<Longrightarrow>
   MarshalJSONIsZero v =
     Inl (Panic ''runtime error: invalid memory address or nil pointer dereference'')"
  by (simp add: MarshalJSONIsZero_def IsSet_def StateSet_def StateUnset_def reflect_TypeOf_def)

text \<open>
  What the hook does on a set container that holds a value \<open>p\<close> of type \<open>t\<close>, where
  \<open>t'\<close> is \<open>t\<close> without its leading pointers: when \<open>t'\<close> is a map, struct or slice
  type it says whether \<open>p\<close> is \<open>nil\<close>, unless \<open>t\<close> itself is a struct type, where
  \<open>IsNil\<close> panics; for every other \<open>t'\<close> it returns false.
\<close>

lemma MarshalJSONIsZero_set:
  assumes "IsSet v" and "value v = dyn t p" and "MarshalJSONIsZero_loop t = Inr t'"
  shows "MarshalJSONIsZero v =
    (if Type_Kind t' \<in> {reflect_Map, reflect_Struct, reflect_Slice} then
       if Type_Kind t = reflect_Struct
       then Inl (Panic ''reflect: call of reflect.Value.IsNil on non-nilable Value'')
       else Inr (p = P_nil)
     else Inr False)"
proof -
  from MarshalJSONIsZero_loop_result [of t] assms(3)
  have k: "t' = t \<or> Type_Kind t = reflect_Ptr"
    by auto
  have u: "MarshalJSONIsZero v =
    (if Type_Kind t' \<in> {reflect_Map, reflect_Struct, reflect_Slice} then
       (case Value_IsNil (dyn t p) of
          Inl q \<Rightarrow> Inl q
        | Inr True \<Rightarrow> Inr True
        | Inr False \<Rightarrow> Inr False)
     else Inr False)"
    using assms
    by (simp add: MarshalJSONIsZero_def IsSet_def StateSet_def StateUnset_def reflect_TypeOf_def
        reflect_ValueOf_def del: MarshalJSONIsZero_loop.simps)
  show ?thesis
  proof (cases "Type_Kind t' \<in> {reflect_Map, reflect_Struct, reflect_Slice}")
    case False
    with u show ?thesis
      by simp
  next
    case True
    with k have "Type_Kind t \<in> {reflect_Map, reflect_Struct, reflect_Slice, reflect_Ptr}"
      by auto
    with u True show ?thesis
      by (auto simp: Value_IsNil_def Value_Kind_def split: bool.splits)
  qed
qed

text \<open>The three cases of \<open>TestMarshalJSONIsZero\<close>.\<close>

lemma MarshalJSONIsZero_tests:
  "IsSet (Set (New nil) (dyn (SliceOf int_t) P_nil)) \<and>
   MarshalJSONIsZero (Set (New nil) (dyn (SliceOf int_t) P_nil)) = Inr True \<and>
   IsSet (Set (New nil) (dyn (MapOf string_t int_t) P_nil)) \<and>
   MarshalJSONIsZero (Set (New nil) (dyn (MapOf string_t int_t) P_nil)) = Inr True \<and>
   IsSet (Set (New nil) (dyn (PointerTo testStruct_t) P_nil)) \<and>
   MarshalJSONIsZero (Set (New nil) (dyn (PointerTo testStruct_t) P_nil)) = Inr True"
  by (simp add: IsSet_def Set_def New_def MarshalJSONIsZero_def StateSet_def StateUnset_def
      reflect_TypeOf_def reflect_ValueOf_def testStruct_t_def Value_IsNil_def Value_Kind_def)

text \<open>
  C3 says that the hook returns false for every set value that is not a \<open>nil\<close> map,
  struct or slice behind any number of pointers. For a set container of a struct type,
  here \<open>From(testStruct{ID: 1})\<close>, the code does not return: the type's kind is
  Struct, so \<open>reflect.ValueOf(v.value).IsNil()\<close> is called on a struct value and
  panics.
\<close>

theorem MarshalJSONIsZero_struct_panics:
  "IsSet (From (dyn testStruct_t (P_fields [P_bits 1]))) \<and>
   MarshalJSONIsZero (From (dyn testStruct_t (P_fields [P_bits 1]))) =
     Inl (Panic ''reflect: call of reflect.Value.IsNil on non-nilable Value'')"
  by (simp add: IsSet_def From_def MarshalJSONIsZero_def StateSet_def StateUnset_def
      reflect_TypeOf_def reflect_ValueOf_def testStruct_t_def Value_IsNil_def Value_Kind_def)

subsection \<open>The database value\<close>














end
